theory Spec2Isabelle
  imports Main
begin

section \<open>Locations and the diagnostics sink\<close>

text \<open>
  Modelled from the spec: \<^verbatim>\<open>soda/contract/parser/parser_log.py\<close> (\<^verbatim>\<open>ParserLocation\<close>,
  \<^verbatim>\<open>ParserLogs\<close>) is imported by the parser but is not among the sources. A location is
  the triple \<^verbatim>\<open>(file_path, line, column)\<close>; a diagnostic entry has a severity, a message,
  an optional location and an optional documentation reference; the sink is an
  append-only ordered sequence of entries.
\<close>

datatype parser_location =
  ParserLocation (file_path: string) (line: nat) (column: nat)

datatype severity = Error | Warning | Debug

datatype parser_log =
  ParserLog (level: severity) (message: string)
    (location: "parser_location option") (docs_ref: "string option")

text \<open>
  A \<^verbatim>\<open>ParserLogs\<close> object is mutable and shared by reference: the caller hands one to
  \<^verbatim>\<open>parse\<close>, and the parser reads another (or the same) through its attribute
  \<^verbatim>\<open>self.logs\<close>. The objects live in a store indexed by reference, so that two names for
  one sink see each other's entries.
\<close>

type_synonym logs_ref = nat

section \<open>The YAML library\<close>

text \<open>
  \<^verbatim>\<open>ruamel.yaml\<close> is an external library. What \<^verbatim>\<open>YAML().load\<close> returns is a tree of
  \<^verbatim>\<open>CommentedMap\<close>, \<^verbatim>\<open>CommentedSeq\<close> and Python scalars (\<^verbatim>\<open>None\<close> for an empty document);
  a mapping keeps its keys in document order and knows the (line, column) of every value.
  With \<^verbatim>\<open>preserve_quotes\<close> the library also returns scalars of classes of its own
  (\<^verbatim>\<open>DoubleQuotedScalarString\<close>, \<^verbatim>\<open>ScalarFloat\<close>, ...): \<open>PyOther c\<close> is a scalar
  object of the class named \<open>c\<close>.
  Malformed text raises \<^verbatim>\<open>MarkedYAMLError\<close>, which carries its text and the
  \<^verbatim>\<open>problem_mark\<close>. The loader itself is a parameter of the model.
\<close>

datatype ruamel_object =
    CommentedMap "(string \<times> (nat \<times> nat) \<times> ruamel_object) list"
  | CommentedSeq "ruamel_object list"
  | PyStr string
  | PyInt int
  | PyBool bool
  | PyNone
  | PyOther string

datatype yaml_load_result =
    Loaded ruamel_object
  | MarkedYAMLError string nat nat

type_synonym yaml = "string \<Rightarrow> yaml_load_result"

text \<open>\<^verbatim>\<open>isinstance(x, CommentedMap)\<close>, \<^verbatim>\<open>isinstance(x, CommentedSeq)\<close>, \<^verbatim>\<open>type(x).__name__\<close>.\<close>

fun is_CommentedMap :: "ruamel_object \<Rightarrow> bool" where
  "is_CommentedMap (CommentedMap m) = True"
| "is_CommentedMap _ = False"

fun is_CommentedSeq :: "ruamel_object \<Rightarrow> bool" where
  "is_CommentedSeq (CommentedSeq xs) = True"
| "is_CommentedSeq _ = False"

fun type_name :: "ruamel_object \<Rightarrow> string" where
  "type_name (CommentedMap m) = ''CommentedMap''"
| "type_name (CommentedSeq xs) = ''CommentedSeq''"
| "type_name (PyStr s) = ''str''"
| "type_name (PyInt i) = ''int''"
| "type_name (PyBool b) = ''bool''"
| "type_name PyNone = ''NoneType''"
| "type_name (PyOther c) = c"

section \<open>Typed YAML values and typed files\<close>

text \<open>
  Modelled from the spec: \<^verbatim>\<open>parser_yaml.py\<close>, \<^verbatim>\<open>parser_file.py\<close>,
  \<^verbatim>\<open>parser_data_contract_file.py\<close> and \<^verbatim>\<open>parser_datasource_file.py\<close> are not among the
  sources. A \<^verbatim>\<open>YamlObject\<close> wraps a mapping with its location; a \<^verbatim>\<open>YamlString\<close> wraps a
  text scalar and exposes \<^verbatim>\<open>value\<close> and \<^verbatim>\<open>location\<close>. A typed file keeps the sink it was
  built with, its path, its raw content and its root; a data-contract file exposes the
  optional field \<^verbatim>\<open>datasource\<close>, a datasource file the optional field \<^verbatim>\<open>name\<close>. An
  accessor answers "not present" or "wrong type" without raising.
\<close>

datatype yaml_object = YamlObject ruamel_object parser_location

datatype yaml_value =
    YamlString (val: string) (loc: parser_location)
  | YamlOther parser_location

datatype parser_file =
    ParserDataContractFile logs_ref string string yaml_object
  | ParserDatasourceFile logs_ref string string yaml_object
  | ParserFile logs_ref string string yaml_object

fun file_content_str :: "parser_file \<Rightarrow> string" where
  "file_content_str (ParserDataContractFile lg path content root) = content"
| "file_content_str (ParserDatasourceFile lg path content root) = content"
| "file_content_str (ParserFile lg path content root) = content"

fun root_yaml_object :: "parser_file \<Rightarrow> yaml_object" where
  "root_yaml_object (ParserDataContractFile lg path content root) = root"
| "root_yaml_object (ParserDatasourceFile lg path content root) = root"
| "root_yaml_object (ParserFile lg path content root) = root"

fun read_field :: "yaml_object \<Rightarrow> string \<Rightarrow> yaml_value option" where
  "read_field (YamlObject (CommentedMap m) l) key =
     (case map_of m key of
        None \<Rightarrow> None
      | Some ((ln, col), PyStr s) \<Rightarrow> Some (YamlString s (ParserLocation (file_path l) ln col))
      | Some ((ln, col), other) \<Rightarrow> Some (YamlOther (ParserLocation (file_path l) ln col)))"
| "read_field (YamlObject other l) key = None"

text \<open>
  \<^verbatim>\<open>isinstance(file, ParserDatasourceFile)\<close> followed by
  \<^verbatim>\<open>isinstance(file.name, YamlString)\<close>: the declared name and where it stands.
\<close>

fun datasource_name :: "parser_file \<Rightarrow> (string \<times> parser_location) option" where
  "datasource_name (ParserDatasourceFile lg path content root) =
     (case read_field root ''name'' of
        Some (YamlString v l) \<Rightarrow> Some (v, l)
      | _ \<Rightarrow> None)"
| "datasource_name other = None"

text \<open>
  \<^verbatim>\<open>isinstance(file, ParserDataContractFile)\<close> followed by
  \<^verbatim>\<open>isinstance(file.datasource, YamlString)\<close>: the referenced name and where it stands.
\<close>

fun datasource_reference :: "parser_file \<Rightarrow> (string \<times> parser_location) option" where
  "datasource_reference (ParserDataContractFile lg path content root) =
     (case read_field root ''datasource'' of
        Some (YamlString v l) \<Rightarrow> Some (v, l)
      | _ \<Rightarrow> None)"
| "datasource_reference other = None"

section \<open>Plugins\<close>

text \<open>
  Modelled from the spec: \<^verbatim>\<open>parser_plugin.py\<close> is not among the sources. A plugin exposes
  one operation, \<^verbatim>\<open>parse(file)\<close>; it is an external collaborator, and all the model keeps
  of it is its identity and whether the call raises. Every call is recorded with the
  registry as it stood when the call was made.
\<close>

datatype parser_plugin =
  ParserPlugin (plugin_name: string) (plugin_raises: "parser_file \<Rightarrow> bool")

datatype plugin_call =
  PluginCall (called_plugin: string) (called_with: parser_file)
    (registry_then: "parser_file list")

section \<open>The parser object and the world around it\<close>

text \<open>
  \<^verbatim>\<open>ContractParser.__init__\<close> assigns \<^verbatim>\<open>yaml\<close>, \<^verbatim>\<open>files\<close>, \<^verbatim>\<open>plugins\<close> and
  \<^verbatim>\<open>variable_resolver\<close>. It never assigns \<^verbatim>\<open>logs\<close>, although \<^verbatim>\<open>parse\<close>,
  \<^verbatim>\<open>_parse_yaml_str\<close> and \<^verbatim>\<open>_validate_datasource_names\<close> read \<^verbatim>\<open>self.logs\<close>. The
  attribute is therefore optional in the model: \<open>None\<close> is "never assigned" (reading it
  raises \<^verbatim>\<open>AttributeError\<close>), \<open>Some r\<close> is the state after client code has run
  \<^verbatim>\<open>parser.logs = ...\<close>.
\<close>

record contract_parser =
  files :: "parser_file list"
  plugins :: "parser_plugin list"
  variable_resolver :: "string \<Rightarrow> string"
  logs :: "logs_ref option"

record world =
  sinks :: "logs_ref \<Rightarrow> parser_log list"
  plugin_calls :: "plugin_call list"

datatype py_error = AttributeError | PluginException

definition ContractParser_init :: "(string \<Rightarrow> string) \<Rightarrow> contract_parser" where
  "ContractParser_init resolver =
     \<lparr>files = [], plugins = [], variable_resolver = resolver, logs = None\<rparr>"

text \<open>\<^verbatim>\<open>ParserLogs.error\<close> and \<^verbatim>\<open>ParserLogs.debug\<close> append one entry to the sink.\<close>

definition logs_append :: "logs_ref \<Rightarrow> parser_log \<Rightarrow> world \<Rightarrow> world" where
  "logs_append r e w = w\<lparr>sinks := (sinks w)(r := sinks w r @ [e])\<rparr>"

definition logs_error ::
  "logs_ref \<Rightarrow> string \<Rightarrow> parser_location option \<Rightarrow> string option \<Rightarrow> world \<Rightarrow> world" where
  "logs_error r msg l d w = logs_append r (ParserLog Error msg l d) w"

definition logs_debug :: "logs_ref \<Rightarrow> string \<Rightarrow> world \<Rightarrow> world" where
  "logs_debug r msg w = logs_append r (ParserLog Debug msg None None) w"

text \<open>\<^verbatim>\<open>self.logs.error(message=..., location=...)\<close>: the attribute is read first.\<close>

definition self_logs_error ::
  "contract_parser \<Rightarrow> string \<Rightarrow> parser_location \<Rightarrow> world \<Rightarrow> (py_error + unit) \<times> world" where
  "self_logs_error p msg l w =
     (case logs p of
        None \<Rightarrow> (Inl AttributeError, w)
      | Some r \<Rightarrow> (Inr (), logs_error r msg (Some l) None w))"

section \<open>Text helpers\<close>

definition quoted :: "string \<Rightarrow> string" where
  "quoted s = CHR 0x27 # s @ [CHR 0x27]"

function str_nat :: "nat \<Rightarrow> string" where
  "str_nat n =
     (if n < 10 then [''0123456789'' ! n]
      else str_nat (n div 10) @ [''0123456789'' ! (n mod 10)])"
  by pat_completeness auto
termination
  by (relation "measure id") auto

declare str_nat.simps [simp del]

section \<open>\<^verbatim>\<open>ContractParser.parse\<close>\<close>

text \<open>
  \<^verbatim>\<open>_parse_yaml_str\<close>: the loaded tree, or, on \<^verbatim>\<open>MarkedYAMLError\<close>, an error entry on
  \<^verbatim>\<open>self.logs\<close> at the problem mark; the handler has no \<^verbatim>\<open>return\<close>, so the call then
  yields \<^verbatim>\<open>None\<close>.
\<close>

definition parse_yaml_str ::
  "yaml \<Rightarrow> contract_parser \<Rightarrow> string \<Rightarrow> string \<Rightarrow> world \<Rightarrow> (py_error + ruamel_object) \<times> world" where
  "parse_yaml_str yaml_load p path content w =
     (case yaml_load content of
        Loaded obj \<Rightarrow> (Inr obj, w)
      | MarkedYAMLError e ln col \<Rightarrow>
          (case self_logs_error p (''Invalid YAML: '' @ e) (ParserLocation path ln col) w of
             (Inl err, w') \<Rightarrow> (Inl err, w')
           | (Inr u, w') \<Rightarrow> (Inr PyNone, w')))"

text \<open>\<^verbatim>\<open>for plugin in self.plugins: plugin.parse(file=parser_file)\<close>\<close>

fun run_plugins ::
  "parser_plugin list \<Rightarrow> parser_file \<Rightarrow> contract_parser \<Rightarrow> world \<Rightarrow> (py_error + unit) \<times> world" where
  "run_plugins [] f p w = (Inr (), w)"
| "run_plugins (pl # pls) f p w =
     (let w' = w\<lparr>plugin_calls := plugin_calls w @ [PluginCall (plugin_name pl) f (files p)]\<rparr>
      in if plugin_raises pl f then (Inl PluginException, w')
         else run_plugins pls f p w')"

text \<open>
  The result is the outcome (an exception, or the returned value), the parser object
  and the world, both as the call leaves them, also when it raises.
\<close>

definition parse ::
  "yaml \<Rightarrow> contract_parser \<Rightarrow> string \<Rightarrow> string \<Rightarrow> logs_ref \<Rightarrow> world
     \<Rightarrow> (py_error + parser_file option) \<times> contract_parser \<times> world" where
  "parse yaml_load p contract_yaml_str path lg w =
     (let resolved_file_content_str = variable_resolver p contract_yaml_str;
          w1 = logs_debug lg (''Parsing file '' @ quoted path) w
      in case parse_yaml_str yaml_load p path resolved_file_content_str w1 of
           (Inl err, w2) \<Rightarrow> (Inl err, p, w2)
         | (Inr root_ruamel_object, w2) \<Rightarrow>
             if \<not> is_CommentedMap root_ruamel_object then
               (let actual_type_name =
                      (if is_CommentedSeq root_ruamel_object then ''list''
                       else type_name root_ruamel_object)
                in (Inr None, p,
                    logs_error lg
                      (''All top level YAML elements must be objects, but was ''
                         @ quoted actual_type_name)
                      None (Some ''04-data-contract-language.md#file-type'') w2))
             else
               (let root = YamlObject root_ruamel_object (ParserLocation path 0 0)
                in case logs p of
                     None \<Rightarrow> (Inl AttributeError, p, w2)
                   | Some r \<Rightarrow>
                       (let parser_file = ParserDataContractFile r path contract_yaml_str root;
                            p' = p\<lparr>files := files p @ [parser_file]\<rparr>
                        in case run_plugins (plugins p') parser_file p' w2 of
                             (Inl err, w3) \<Rightarrow> (Inl err, p', w3)
                           | (Inr u, w3) \<Rightarrow> (Inr None, p', w3))))"

section \<open>\<^verbatim>\<open>ContractParser.validate_semantics\<close>\<close>

text \<open>
  \<^verbatim>\<open>datasource_locations\<close> is a Python \<^verbatim>\<open>dict\<close> from names to lists of locations; it
  iterates in insertion order, so it is an association list here.
  \<^verbatim>\<open>d.setdefault(k, []); d[k].append(l)\<close>:
\<close>

fun setdefault_append ::
  "string \<Rightarrow> parser_location \<Rightarrow> (string \<times> parser_location list) list
     \<Rightarrow> (string \<times> parser_location list) list" where
  "setdefault_append k l [] = [(k, [l])]"
| "setdefault_append k l ((k', ls) # d) =
     (if k' = k then (k', ls @ [l]) # d else (k', ls) # setdefault_append k l d)"

text \<open>The first loop over \<^verbatim>\<open>self.files\<close>.\<close>

fun collect_datasource_locations ::
  "parser_file list \<Rightarrow> (string \<times> parser_location list) list
     \<Rightarrow> (string \<times> parser_location list) list" where
  "collect_datasource_locations [] d = d"
| "collect_datasource_locations (f # fs) d =
     collect_datasource_locations fs
       (case datasource_name f of
          Some (v, l) \<Rightarrow> setdefault_append v l d
        | None \<Rightarrow> d)"

text \<open>\<^verbatim>\<open>{k: v for k, v in d.items() if len(d[k]) > 1}\<close>\<close>

definition duplicate_declared_datasources ::
  "(string \<times> parser_location list) list \<Rightarrow> (string \<times> parser_location list) list" where
  "duplicate_declared_datasources d = filter (\<lambda>(k, v). length v > 1) d"

definition duplicate_message :: "string \<Rightarrow> nat \<Rightarrow> string" where
  "duplicate_message n k =
     ''Datasource '' @ quoted n @ '' was declared '' @ str_nat k @ '' times''"

definition undefined_message :: "string \<Rightarrow> string" where
  "undefined_message n = ''Datasource '' @ quoted n @ '' is not defined''"

text \<open>\<^verbatim>\<open>for location in locations: self.logs.error(...)\<close>\<close>

fun log_locations ::
  "contract_parser \<Rightarrow> string \<Rightarrow> nat \<Rightarrow> parser_location list \<Rightarrow> world
     \<Rightarrow> (py_error + unit) \<times> world" where
  "log_locations p n k [] w = (Inr (), w)"
| "log_locations p n k (l # ls) w =
     (case self_logs_error p (duplicate_message n k) l w of
        (Inl err, w') \<Rightarrow> (Inl err, w')
      | (Inr u, w') \<Rightarrow> log_locations p n k ls w')"

text \<open>\<^verbatim>\<open>for duplicate_declared_datasource_name in duplicate_declared_datasources: ...\<close>\<close>

fun log_duplicates ::
  "contract_parser \<Rightarrow> (string \<times> parser_location list) list \<Rightarrow> world
     \<Rightarrow> (py_error + unit) \<times> world" where
  "log_duplicates p [] w = (Inr (), w)"
| "log_duplicates p ((n, locations) # d) w =
     (case log_locations p n (length locations) locations w of
        (Inl err, w') \<Rightarrow> (Inl err, w')
      | (Inr u, w') \<Rightarrow> log_duplicates p d w')"

text \<open>The second loop over \<^verbatim>\<open>self.files\<close>, against \<^verbatim>\<open>datasource_locations.keys()\<close>.\<close>

fun log_undefined ::
  "contract_parser \<Rightarrow> string list \<Rightarrow> parser_file list \<Rightarrow> world
     \<Rightarrow> (py_error + unit) \<times> world" where
  "log_undefined p declared_datasource_names [] w = (Inr (), w)"
| "log_undefined p declared_datasource_names (f # fs) w =
     (case datasource_reference f of
        None \<Rightarrow> log_undefined p declared_datasource_names fs w
      | Some (v, l) \<Rightarrow>
          if v \<notin> set declared_datasource_names then
            (case self_logs_error p (undefined_message v) l w of
               (Inl err, w') \<Rightarrow> (Inl err, w')
             | (Inr u, w') \<Rightarrow> log_undefined p declared_datasource_names fs w')
          else log_undefined p declared_datasource_names fs w)"

definition validate_datasource_names ::
  "contract_parser \<Rightarrow> world \<Rightarrow> (py_error + unit) \<times> world" where
  "validate_datasource_names p w =
     (let datasource_locations = collect_datasource_locations (files p) []
      in case log_duplicates p (duplicate_declared_datasources datasource_locations) w of
           (Inl err, w') \<Rightarrow> (Inl err, w')
         | (Inr u, w') \<Rightarrow> log_undefined p (map fst datasource_locations) (files p) w')"

definition validate_semantics ::
  "contract_parser \<Rightarrow> world \<Rightarrow> (py_error + unit) \<times> world" where
  "validate_semantics p w = validate_datasource_names p w"

section \<open>\<^verbatim>\<open>is_soda_library_available\<close>\<close>

text \<open>
  The function tries \<^verbatim>\<open>from soda_library.execution.check.cloud_check import CloudCheckMixin\<close>.
  What the import does depends on the installation, which is the parameter here: it
  succeeds, raises \<^verbatim>\<open>ModuleNotFoundError\<close>, or raises something else (which the
  \<^verbatim>\<open>except\<close> clause does not catch).
\<close>

datatype import_outcome = Imported | ModuleNotFoundError | OtherImportFailure

datatype import_error = Propagated

fun is_soda_library_available :: "import_outcome \<Rightarrow> import_error + bool" where
  "is_soda_library_available Imported = Inr True"
| "is_soda_library_available ModuleNotFoundError = Inr False"
| "is_soda_library_available OtherImportFailure = Inl Propagated"

section \<open>What the specification says the validators report\<close>

text \<open>
  Appending a batch of entries to one sink.
\<close>

definition emit :: "logs_ref \<Rightarrow> parser_log list \<Rightarrow> world \<Rightarrow> world" where
  "emit r es w = w\<lparr>sinks := (sinks w)(r := sinks w r @ es)\<rparr>"

text \<open>
  The following definitions follow the words of the specification, not the code; the
  theorems below compare them with \<open>validate_semantics\<close>.

  "Group all Datasource-file declarations by their name value": the declarations of the
  registry, in registry order, each a name with its declaration site. A file that is not
  a datasource file, or whose name is absent or not a plain string, contributes none.
\<close>

definition datasource_declarations :: "parser_file list \<Rightarrow> (string \<times> parser_location) list" where
  "datasource_declarations fs = List.map_filter datasource_name fs"

definition declaration_sites :: "string \<Rightarrow> parser_file list \<Rightarrow> parser_location list" where
  "declaration_sites n fs = map snd (filter (\<lambda>d. fst d = n) (datasource_declarations fs))"

text \<open>The declared names, each once, in the order of their first declaration.\<close>

definition declared_names :: "parser_file list \<Rightarrow> string list" where
  "declared_names fs = rev (remdups (rev (map fst (datasource_declarations fs))))"

text \<open>
  "For every name declared more than once, emit one error per occurrence, each located at
  that occurrence's declaration site, with message reporting the name and total
  occurrence count."
\<close>

definition duplicate_errors :: "parser_file list \<Rightarrow> parser_log list" where
  "duplicate_errors fs =
     concat (map (\<lambda>n. map (\<lambda>l. ParserLog Error
                                  (duplicate_message n (length (declaration_sites n fs)))
                                  (Some l) None)
                          (declaration_sites n fs))
                 (filter (\<lambda>n. 1 < length (declaration_sites n fs)) (declared_names fs)))"

text \<open>
  "For every Data-contract file whose datasource field is a plain string, check
  membership against the set of all declared datasource names. If the referenced name was
  never declared, emit one error at the reference's location naming the missing
  datasource."
\<close>

definition undefined_reference_errors :: "parser_file list \<Rightarrow> parser_log list" where
  "undefined_reference_errors fs =
     concat (map (\<lambda>f. case datasource_reference f of
                         None \<Rightarrow> []
                       | Some (v, l) \<Rightarrow>
                           if v \<in> fst ` set (datasource_declarations fs) then []
                           else [ParserLog Error (undefined_message v) (Some l) None])
                 fs)"

text \<open>What the two loops of the code emit, as functions of the dictionary.\<close>

definition entries_of :: "(string \<times> parser_location list) list \<Rightarrow> parser_log list" where
  "entries_of d =
     concat (map (\<lambda>(n, ls). map (\<lambda>l. ParserLog Error (duplicate_message n (length ls))
                                          (Some l) None) ls) d)"

definition undefined_entries :: "string list \<Rightarrow> parser_file list \<Rightarrow> parser_log list" where
  "undefined_entries names fs =
     concat (map (\<lambda>f. case datasource_reference f of
                         None \<Rightarrow> []
                       | Some (v, l) \<Rightarrow>
                           if v \<in> set names then []
                           else [ParserLog Error (undefined_message v) (Some l) None])
                 fs)"

definition sites_in :: "string \<Rightarrow> (string \<times> parser_location) list \<Rightarrow> parser_location list" where
  "sites_in n ds = map snd (filter (\<lambda>d. fst d = n) ds)"

definition names_in :: "(string \<times> parser_location) list \<Rightarrow> string list" where
  "names_in ds = rev (remdups (rev (map fst ds)))"

section \<open>Example data\<close>

text \<open>
  A loader that stands for \<^verbatim>\<open>ruamel.yaml\<close> on the handful of texts used in the
  examples: four one-key mappings (the value of \<^verbatim>\<open>name\<close> starts at column 6, that of
  \<^verbatim>\<open>datasource\<close> at column 12; an unresolved placeholder is a plain string to the
  library), a sequence, an unterminated flow sequence (the problem mark is line 0,
  column 5; the error text is shortened) and the empty document. The last branch only
  makes the function total: no example loads any other text.
\<close>

definition yaml_fixture :: yaml where
  "yaml_fixture s =
     (if s = ''name: db1'' then Loaded (CommentedMap [(''name'', (0, 6), PyStr ''db1'')])
      else if s = ''datasource: db1'' then
        Loaded (CommentedMap [(''datasource'', (0, 12), PyStr ''db1'')])
      else if s = ''datasource: db2'' then
        Loaded (CommentedMap [(''datasource'', (0, 12), PyStr ''db2'')])
      else if s = ''datasource: ${DS}'' then
        Loaded (CommentedMap [(''datasource'', (0, 12), PyStr ''${DS}'')])
      else if s = ''- a'' then Loaded (CommentedSeq [PyStr ''a''])
      else if s = ''a: [1'' then MarkedYAMLError ''while parsing a flow sequence'' 0 5
      else if s = [] then Loaded PyNone
      else Loaded (PyStr s))"

definition empty_world :: world where
  "empty_world = \<lparr>sinks = (\<lambda>r. []), plugin_calls = []\<rparr>"

definition resolver_fixture :: "string \<Rightarrow> string" where
  "resolver_fixture s = (if s = ''datasource: ${DS}'' then ''datasource: db2'' else s)"

text \<open>
  A parser after \<^verbatim>\<open>parser = ContractParser(resolver)\<close>, two plugins appended to
  \<^verbatim>\<open>parser.plugins\<close>, and \<^verbatim>\<open>parser.logs = logs\<close> executed by the client with the sink
  of reference \<open>0\<close>.
\<close>

definition bound_parser :: contract_parser where
  "bound_parser =
     \<lparr>files = [],
      plugins = [ParserPlugin ''first'' (\<lambda>f. False), ParserPlugin ''second'' (\<lambda>f. False)],
      variable_resolver = resolver_fixture, logs = Some 0\<rparr>"

definition datasource_file_fixture :: "string \<Rightarrow> parser_file" where
  "datasource_file_fixture path =
     ParserDatasourceFile 0 path ''name: db1''
       (YamlObject (CommentedMap [(''name'', (0, 6), PyStr ''db1'')]) (ParserLocation path 0 0))"

definition contract_file_fixture :: "string \<Rightarrow> string \<Rightarrow> parser_file" where
  "contract_file_fixture path ds =
     ParserDataContractFile 0 path (''datasource: '' @ ds)
       (YamlObject (CommentedMap [(''datasource'', (0, 12), PyStr ds)]) (ParserLocation path 0 0))"

text \<open>
  A registry with two declarations of \<^verbatim>\<open>db1\<close>, a datasource file without a name, one
  whose name is a number, a contract that refers to \<^verbatim>\<open>db1\<close> and one that refers to the
  undeclared \<^verbatim>\<open>db2\<close>.
\<close>

definition registry_fixture :: "parser_file list" where
  "registry_fixture =
     [datasource_file_fixture ''ds1.yml'',
      ParserDatasourceFile 0 ''ds3.yml'' ''type: postgres''
        (YamlObject (CommentedMap [(''type'', (0, 6), PyStr ''postgres'')])
           (ParserLocation ''ds3.yml'' 0 0)),
      ParserDatasourceFile 0 ''ds4.yml'' ''name: 5''
        (YamlObject (CommentedMap [(''name'', (0, 6), PyInt 5)]) (ParserLocation ''ds4.yml'' 0 0)),
      contract_file_fixture ''c1.yml'' ''db1'',
      datasource_file_fixture ''ds2.yml'',
      contract_file_fixture ''c2.yml'' ''db2'']"

section \<open>The sink and the loops of the validator\<close>

lemma emit_Nil [simp]: "emit r [] w = w"
  by (simp add: emit_def)

lemma emit_emit [simp]: "emit r es (emit r es' w) = emit r (es' @ es) w"
  by (simp add: emit_def)

lemma logs_append_emit: "logs_append r e w = emit r [e] w"
  by (simp add: logs_append_def emit_def)

lemma self_logs_error_bound:
  "logs p = Some r \<Longrightarrow>
   self_logs_error p msg l w = (Inr (), emit r [ParserLog Error msg (Some l) None] w)"
  by (simp add: self_logs_error_def logs_error_def logs_append_emit)

lemma self_logs_error_unbound:
  "logs p = None \<Longrightarrow> self_logs_error p msg l w = (Inl AttributeError, w)"
  by (simp add: self_logs_error_def)

lemma log_locations_bound:
  "logs p = Some r \<Longrightarrow>
   log_locations p n k ls w =
     (Inr (), emit r (map (\<lambda>l. ParserLog Error (duplicate_message n k) (Some l) None) ls) w)"
  by (induction ls arbitrary: w) (simp_all add: self_logs_error_bound)

lemma log_locations_unbound:
  "logs p = None \<Longrightarrow>
   log_locations p n k ls w = (if ls = [] then Inr () else Inl AttributeError, w)"
  by (cases ls) (simp_all add: self_logs_error_unbound)

lemma log_duplicates_bound:
  "logs p = Some r \<Longrightarrow> log_duplicates p d w = (Inr (), emit r (entries_of d) w)"
  by (induction d arbitrary: w) (auto simp: log_locations_bound entries_of_def)

lemma log_duplicates_unbound:
  "logs p = None \<Longrightarrow>
   log_duplicates p d w = (if entries_of d = [] then Inr () else Inl AttributeError, w)"
  by (induction d arbitrary: w) (auto simp: log_locations_unbound entries_of_def split: if_splits)

lemma log_undefined_bound:
  "logs p = Some r \<Longrightarrow> log_undefined p names fs w = (Inr (), emit r (undefined_entries names fs) w)"
  by (induction fs arbitrary: w) (auto simp: self_logs_error_bound undefined_entries_def split: option.splits)

lemma log_undefined_unbound:
  "logs p = None \<Longrightarrow>
   log_undefined p names fs w = (if undefined_entries names fs = [] then Inr () else Inl AttributeError, w)"
  by (induction fs arbitrary: w) (auto simp: self_logs_error_unbound undefined_entries_def split: option.splits if_splits)

section \<open>The dictionary of declarations\<close>

lemma collect_as_foldl:
  "collect_datasource_locations fs d =
     foldl (\<lambda>d (v, l). setdefault_append v l d) d (datasource_declarations fs)"
  by (induction fs arbitrary: d)
     (auto simp: datasource_declarations_def List.map_filter_simps split: option.splits)

lemma setdefault_append_map:
  "distinct ns \<Longrightarrow>
   setdefault_append k l (map (\<lambda>n. (n, g n)) ns) =
     (if k \<in> set ns then map (\<lambda>n. (n, if n = k then g n @ [l] else g n)) ns
      else map (\<lambda>n. (n, g n)) ns @ [(k, [l])])"
  by (induction ns) auto

lemma names_in_snoc:
  "names_in (ds @ [(k, l)]) = (if k \<in> fst ` set ds then names_in ds else names_in ds @ [k])"
  by (simp add: names_in_def)

lemma distinct_names_in: "distinct (names_in ds)"
  by (simp add: names_in_def)

lemma set_names_in: "set (names_in ds) = fst ` set ds"
  by (simp add: names_in_def)

lemma sites_in_snoc:
  "sites_in n (ds @ [(k, l)]) = sites_in n ds @ (if k = n then [l] else [])"
  by (simp add: sites_in_def)

lemma sites_in_absent: "k \<notin> fst ` set ds \<Longrightarrow> sites_in k ds = []"
  by (auto simp: sites_in_def filter_empty_conv)

lemma foldl_setdefault_append:
  "foldl (\<lambda>d (v, l). setdefault_append v l d) [] ds =
     map (\<lambda>n. (n, sites_in n ds)) (names_in ds)"
proof (induction ds rule: rev_induct)
  case Nil
  show ?case by (simp add: names_in_def)
next
  case (snoc x ds)
  obtain k l where x: "x = (k, l)" by (cases x)
  show ?case
  proof (cases "k \<in> fst ` set ds")
    case True
    then show ?thesis
      using snoc
      by (simp add: x setdefault_append_map distinct_names_in set_names_in names_in_snoc
            sites_in_snoc)
  next
    case False
    then show ?thesis
      using snoc
      by (auto simp add: x setdefault_append_map distinct_names_in set_names_in names_in_snoc
            sites_in_snoc sites_in_absent)
  qed
qed

lemma collect_datasource_locations_eq:
  "collect_datasource_locations fs [] =
     map (\<lambda>n. (n, declaration_sites n fs)) (declared_names fs)"
  by (simp add: collect_as_foldl foldl_setdefault_append declaration_sites_def declared_names_def
        sites_in_def names_in_def)

lemma entries_of_duplicates:
  "entries_of (duplicate_declared_datasources (collect_datasource_locations fs [])) =
     duplicate_errors fs"
  by (simp add: collect_datasource_locations_eq duplicate_declared_datasources_def entries_of_def
        duplicate_errors_def filter_map comp_def)

lemma keys_collect:
  "set (map fst (collect_datasource_locations fs [])) = fst ` set (datasource_declarations fs)"
  by (simp add: collect_datasource_locations_eq declared_names_def comp_def)

lemma undefined_entries_collect:
  "undefined_entries (map fst (collect_datasource_locations fs [])) gs =
     concat (map (\<lambda>f. case datasource_reference f of
                         None \<Rightarrow> []
                       | Some (v, l) \<Rightarrow>
                           if v \<in> fst ` set (datasource_declarations fs) then []
                           else [ParserLog Error (undefined_message v) (Some l) None])
                 gs)"
  unfolding undefined_entries_def keys_collect ..

lemma validate_semantics_bound:
  "logs p = Some r \<Longrightarrow>
   validate_semantics p w =
     (Inr (), emit r (duplicate_errors (files p) @ undefined_reference_errors (files p)) w)"
  by (simp add: validate_semantics_def validate_datasource_names_def Let_def
        log_duplicates_bound log_undefined_bound entries_of_duplicates undefined_entries_collect
        undefined_reference_errors_def)

lemma validate_semantics_unbound:
  "logs p = None \<Longrightarrow>
   validate_semantics p w =
     (if duplicate_errors (files p) @ undefined_reference_errors (files p) = [] then Inr ()
      else Inl AttributeError, w)"
  by (simp add: validate_semantics_def validate_datasource_names_def Let_def
        log_duplicates_unbound log_undefined_unbound entries_of_duplicates undefined_entries_collect
        undefined_reference_errors_def)

section \<open>Properties of \<^verbatim>\<open>parse\<close>\<close>

lemma parse_yaml_str_loaded:
  "yaml_load content = Loaded obj \<Longrightarrow> parse_yaml_str yaml_load p path content w = (Inr obj, w)"
  by (simp add: parse_yaml_str_def)

lemma logs_debug_emit: "logs_debug r msg w = emit r [ParserLog Debug msg None None] w"
  by (simp add: logs_debug_def logs_append_emit)

lemma logs_error_emit: "logs_error r msg l d w = emit r [ParserLog Error msg l d] w"
  by (simp add: logs_error_def logs_append_emit)

text \<open>
  Claim C4, as amended. When the resolved text loads to anything but a mapping (a
  sequence, a scalar, the empty document), \<open>parse\<close> returns \<^verbatim>\<open>None\<close>, leaves the parser
  (and so the registry) as it was, and appends to the caller's sink the debug entry and
  exactly one error entry. That entry names the type found and carries the documentation
  reference; it carries no location, because the call \<^verbatim>\<open>logs.error(message=..., docs_ref=...)\<close>
  passes none.
\<close>

theorem parse_rejects_non_mapping:
  assumes "yaml_load (variable_resolver p text) = Loaded root" and "\<not> is_CommentedMap root"
  shows "parse yaml_load p text path lg w =
    (Inr None, p,
     emit lg
       [ParserLog Debug (''Parsing file '' @ quoted path) None None,
        ParserLog Error
          (''All top level YAML elements must be objects, but was ''
             @ quoted (if is_CommentedSeq root then ''list'' else type_name root))
          None (Some ''04-data-contract-language.md#file-type'')]
       w)"
  using assms
  by (simp add: parse_def Let_def parse_yaml_str_loaded logs_debug_emit logs_error_emit)

text \<open>The theorem at a top-level sequence, on a freshly constructed parser.\<close>

theorem parse_rejects_non_mapping_witness:
  "parse yaml_fixture (ContractParser_init id) ''- a'' ''seq.yml'' 0 empty_world =
    (Inr None, ContractParser_init id,
     emit 0
       [ParserLog Debug (''Parsing file '' @ quoted ''seq.yml'') None None,
        ParserLog Error
          (''All top level YAML elements must be objects, but was '' @ quoted ''list'')
          None (Some ''04-data-contract-language.md#file-type'')]
       empty_world)"
  using parse_rejects_non_mapping [of yaml_fixture "ContractParser_init id" "''- a''"
      "CommentedSeq [PyStr ''a'']" "''seq.yml''" 0 empty_world]
  by (simp add: yaml_fixture_def ContractParser_init_def)

text \<open>
  Claim C4 as stated fails: for the sequence \<^verbatim>\<open>- a\<close> in \<^verbatim>\<open>seq.yml\<close> the structural
  error has no location, so its location is not \<^verbatim>\<open>(seq.yml, 0, 0)\<close>.
\<close>

theorem structural_error_location_counterexample:
  "sinks (snd (snd (parse yaml_fixture (ContractParser_init id) ''- a'' ''seq.yml'' 0 empty_world))) 0 =
     [ParserLog Debug (''Parsing file '' @ quoted ''seq.yml'') None None,
      ParserLog Error
        (''All top level YAML elements must be objects, but was '' @ quoted ''list'')
        None (Some ''04-data-contract-language.md#file-type'')]
   \<and> location (last (sinks (snd (snd (parse yaml_fixture (ContractParser_init id) ''- a'' ''seq.yml'' 0 empty_world))) 0))
       \<noteq> Some (ParserLocation ''seq.yml'' 0 0)"
  by (simp add: parse_def parse_yaml_str_def yaml_fixture_def ContractParser_init_def
        empty_world_def logs_debug_def logs_error_def logs_append_def)

lemma run_plugins_calls:
  "run_plugins pls f p w = (Inr u, w') \<Longrightarrow>
   w' = w\<lparr>plugin_calls := plugin_calls w @ map (\<lambda>pl. PluginCall (plugin_name pl) f (files p)) pls\<rparr>"
proof (induction pls arbitrary: w)
  case Nil
  then show ?case by simp
next
  case (Cons pl pls)
  let ?w = "w\<lparr>plugin_calls := plugin_calls w @ [PluginCall (plugin_name pl) f (files p)]\<rparr>"
  from Cons.prems have "run_plugins pls f p ?w = (Inr u, w')"
    by (simp add: Let_def split: if_splits)
  from Cons.IH [OF this] show ?case by simp
qed

lemma parse_yaml_str_cong:
  "yaml_load' content = yaml_load content \<Longrightarrow>
   parse_yaml_str yaml_load' p path content w = parse_yaml_str yaml_load p path content w"
  by (simp add: parse_yaml_str_def)

lemma parse_cong:
  assumes "yaml_load' (variable_resolver p text) = yaml_load (variable_resolver p text)"
  shows "parse yaml_load' p text path lg w = parse yaml_load p text path lg w"
  unfolding parse_def Let_def
    parse_yaml_str_cong [of yaml_load' "variable_resolver p text" yaml_load, OF assms] ..

lemma parse_yaml_str_cases:
  "parse_yaml_str yaml_load p path content w = (Inr obj, w') \<Longrightarrow>
   yaml_load content = Loaded obj \<or> obj = PyNone"
  by (auto simp: parse_yaml_str_def split: yaml_load_result.splits prod.splits sum.splits)

lemma parse_registers:
  assumes "parse yaml_load p text path lg w = (out, p', w')" and "files p' \<noteq> files p"
  shows "\<exists>r m. logs p = Some r
           \<and> yaml_load (variable_resolver p text) = Loaded (CommentedMap m)
           \<and> p' = p\<lparr>files := files p @ [ParserDataContractFile r path text
                   (YamlObject (CommentedMap m) (ParserLocation path 0 0))]\<rparr>"
proof -
  let ?w1 = "logs_debug lg (''Parsing file '' @ quoted path) w"
  obtain res w2 where y: "parse_yaml_str yaml_load p path (variable_resolver p text) ?w1 = (res, w2)"
    by (cases "parse_yaml_str yaml_load p path (variable_resolver p text) ?w1")
  show ?thesis
  proof (cases res)
    case (Inl err)
    with assms y show ?thesis by (simp add: parse_def Let_def)
  next
    case (Inr obj)
    show ?thesis
    proof (cases obj)
      case (CommentedMap m)
      with Inr y have "yaml_load (variable_resolver p text) = Loaded (CommentedMap m)"
        using parse_yaml_str_cases by fastforce
      with assms y Inr CommentedMap show ?thesis
        by (auto simp: parse_def Let_def split: option.splits prod.splits sum.splits)
    qed (use assms y Inr in \<open>simp_all add: parse_def Let_def\<close>)
  qed
qed

section \<open>The claims on the remaining paths\<close>

text \<open>
  Claim C10. \<open>is_soda_library_available\<close> returns the boolean \<^verbatim>\<open>False\<close>, and raises
  nothing, when the import attempt ends in \<^verbatim>\<open>ModuleNotFoundError\<close>, and returns
  \<^verbatim>\<open>True\<close> when the import succeeds.
\<close>

theorem is_soda_library_available_absent_or_present:
  "is_soda_library_available ModuleNotFoundError = Inr False
   \<and> is_soda_library_available Imported = Inr True"
  by simp

text \<open>
  \<open>parse\<close> has no \<^verbatim>\<open>return parser_file\<close>: whatever the input, it raises or returns
  \<^verbatim>\<open>None\<close>.
\<close>

lemma parse_never_returns_file: "fst (parse yaml_load p text path lg w) \<noteq> Inr (Some f)"
  by (auto simp: parse_def Let_def split: prod.splits sum.splits option.splits)

text \<open>
  Claim C1 on the code. For the one-key mapping \<^verbatim>\<open>datasource: db1\<close>, a freshly
  constructed parser raises \<^verbatim>\<open>AttributeError\<close> at \<^verbatim>\<open>logs=self.logs\<close> and registers
  nothing; a parser whose \<^verbatim>\<open>logs\<close> attribute the client has assigned registers the typed
  file but returns \<^verbatim>\<open>None\<close>, not the file.
\<close>

theorem parse_valid_mapping_returns_no_file:
  "fst (parse yaml_fixture (ContractParser_init id) ''datasource: db1'' ''c.yml'' 0 empty_world)
     = Inl AttributeError
   \<and> files (fst (snd (parse yaml_fixture (ContractParser_init id) ''datasource: db1'' ''c.yml'' 0
         empty_world))) = []
   \<and> fst (parse yaml_fixture bound_parser ''datasource: db1'' ''c.yml'' 0 empty_world) = Inr None
   \<and> files (fst (snd (parse yaml_fixture bound_parser ''datasource: db1'' ''c.yml'' 0 empty_world)))
       = [contract_file_fixture ''c.yml'' ''db1'']"
  by (simp add: parse_def parse_yaml_str_def yaml_fixture_def ContractParser_init_def
        bound_parser_def resolver_fixture_def empty_world_def logs_debug_def logs_append_def
        contract_file_fixture_def Let_def)

text \<open>
  Claim C2 on the code. For the unterminated flow sequence \<^verbatim>\<open>a: [1\<close>, a freshly
  constructed parser raises \<^verbatim>\<open>AttributeError\<close> inside the \<^verbatim>\<open>except\<close> handler and the
  sink holds the debug entry only; a parser whose \<^verbatim>\<open>logs\<close> attribute is the caller's
  sink returns \<^verbatim>\<open>None\<close> after appending two error entries, the syntax error at the
  problem mark and then the structural error for the \<^verbatim>\<open>None\<close> that
  \<^verbatim>\<open>_parse_yaml_str\<close> returned.
\<close>

theorem parse_invalid_yaml_diagnostics:
  "fst (parse yaml_fixture (ContractParser_init id) ''a: [1'' ''bad.yml'' 0 empty_world)
     = Inl AttributeError
   \<and> sinks (snd (snd (parse yaml_fixture (ContractParser_init id) ''a: [1'' ''bad.yml'' 0
         empty_world))) 0
       = [ParserLog Debug (''Parsing file '' @ quoted ''bad.yml'') None None]
   \<and> fst (parse yaml_fixture bound_parser ''a: [1'' ''bad.yml'' 0 empty_world) = Inr None
   \<and> sinks (snd (snd (parse yaml_fixture bound_parser ''a: [1'' ''bad.yml'' 0 empty_world))) 0
       = [ParserLog Debug (''Parsing file '' @ quoted ''bad.yml'') None None,
          ParserLog Error ''Invalid YAML: while parsing a flow sequence''
            (Some (ParserLocation ''bad.yml'' 0 5)) None,
          ParserLog Error
            (''All top level YAML elements must be objects, but was '' @ quoted ''NoneType'')
            None (Some ''04-data-contract-language.md#file-type'')]"
  by (simp add: parse_def parse_yaml_str_def self_logs_error_def yaml_fixture_def
        ContractParser_init_def bound_parser_def resolver_fixture_def empty_world_def
        logs_debug_def logs_error_def logs_append_def Let_def)

text \<open>
  Claim C3 on the code. On a parser as \<^verbatim>\<open>__init__\<close> leaves it, every syntax failure is
  raised as \<^verbatim>\<open>AttributeError\<close> instead of being reported: the call ends in the
  exception, and the only entry appended is the debug line.
\<close>

theorem syntax_failure_raises:
  assumes "yaml_load (resolver text) = MarkedYAMLError e ln col"
  shows "parse yaml_load (ContractParser_init resolver) text path lg w =
    (Inl AttributeError, ContractParser_init resolver,
     emit lg [ParserLog Debug (''Parsing file '' @ quoted path) None None] w)"
  using assms
  by (simp add: parse_def parse_yaml_str_def self_logs_error_def ContractParser_init_def
        logs_debug_emit Let_def)

text \<open>The theorem at the unterminated flow sequence \<^verbatim>\<open>a: [1\<close>.\<close>

theorem syntax_failure_raises_witness:
  "parse yaml_fixture (ContractParser_init id) ''a: [1'' ''bad.yml'' 0 empty_world =
    (Inl AttributeError, ContractParser_init id,
     emit 0 [ParserLog Debug (''Parsing file '' @ quoted ''bad.yml'') None None] empty_world)"
  using syntax_failure_raises [of yaml_fixture id "''a: [1''"
      "''while parsing a flow sequence''" 0 5 "''bad.yml''" 0 empty_world]
  by (simp add: yaml_fixture_def)

section \<open>What \<^verbatim>\<open>parse\<close> registers, and the plugin pass\<close>

text \<open>
  Claim C8. Whenever \<open>parse\<close> registers a file, the file keeps the raw text it was
  given as its content, while its root is the mapping that the loader built from the
  resolved text; and the whole call depends on the loader only through what it answers
  on the resolved text, so no YAML interpretation ever sees the raw text.
\<close>

theorem parse_resolves_before_yaml:
  assumes "parse yaml_load p text path lg w = (out, p', w')" and "files p' \<noteq> files p"
  shows "(\<exists>f m. files p' = files p @ [f]
            \<and> file_content_str f = text
            \<and> yaml_load (variable_resolver p text) = Loaded (CommentedMap m)
            \<and> root_yaml_object f = YamlObject (CommentedMap m) (ParserLocation path 0 0))
         \<and> (\<forall>yaml_load'. yaml_load' (variable_resolver p text) = yaml_load (variable_resolver p text)
               \<longrightarrow> parse yaml_load' p text path lg w = (out, p', w'))"
proof -
  from parse_registers [OF assms] obtain r m where
    "logs p = Some r" "yaml_load (variable_resolver p text) = Loaded (CommentedMap m)"
    "p' = p\<lparr>files := files p @ [ParserDataContractFile r path text
             (YamlObject (CommentedMap m) (ParserLocation path 0 0))]\<rparr>"
    by blast
  then have "\<exists>f m. files p' = files p @ [f]
            \<and> file_content_str f = text
            \<and> yaml_load (variable_resolver p text) = Loaded (CommentedMap m)
            \<and> root_yaml_object f = YamlObject (CommentedMap m) (ParserLocation path 0 0)"
    by simp
  moreover have "\<forall>yaml_load'. yaml_load' (variable_resolver p text) = yaml_load (variable_resolver p text)
               \<longrightarrow> parse yaml_load' p text path lg w = (out, p', w')"
    using assms(1) parse_cong by metis
  ultimately show ?thesis by blast
qed

text \<open>
  The theorem with a resolver that replaces a placeholder: the registered content holds
  the placeholder and the root holds the substituted name, while the raw text itself
  would have loaded with the placeholder as the name.
\<close>

theorem parse_resolves_before_yaml_witness:
  "files (fst (snd (parse yaml_fixture bound_parser ''datasource: ${DS}'' ''c.yml'' 0 empty_world)))
     = [ParserDataContractFile 0 ''c.yml'' ''datasource: ${DS}''
          (YamlObject (CommentedMap [(''datasource'', (0, 12), PyStr ''db2'')])
             (ParserLocation ''c.yml'' 0 0))]
   \<and> yaml_fixture ''datasource: ${DS}''
       = Loaded (CommentedMap [(''datasource'', (0, 12), PyStr ''${DS}'')])"
  using parse_resolves_before_yaml [of yaml_fixture bound_parser "''datasource: ${DS}''" "''c.yml''"
      0 empty_world
      "fst (parse yaml_fixture bound_parser ''datasource: ${DS}'' ''c.yml'' 0 empty_world)"
      "fst (snd (parse yaml_fixture bound_parser ''datasource: ${DS}'' ''c.yml'' 0 empty_world))"
      "snd (snd (parse yaml_fixture bound_parser ''datasource: ${DS}'' ''c.yml'' 0 empty_world))"]
  by (simp add: parse_def parse_yaml_str_def yaml_fixture_def bound_parser_def
        resolver_fixture_def Let_def)

text \<open>
  Claim C9. When \<open>parse\<close> returns normally and has registered a file, the plugin calls
  it made are exactly one per registered plugin, on that file, in registration order, and
  at each call the registry already ends with the file.
\<close>

theorem plugins_run_once_in_order:
  assumes "parse yaml_load p text path lg w = (Inr res, p', w')" and "files p' \<noteq> files p"
  shows "\<exists>f. files p' = files p @ [f]
           \<and> plugin_calls w' =
               plugin_calls w @ map (\<lambda>pl. PluginCall (plugin_name pl) f (files p @ [f])) (plugins p)"
proof -
  from parse_registers [OF assms] obtain r m where
    r: "logs p = Some r" and m: "yaml_load (variable_resolver p text) = Loaded (CommentedMap m)"
    and p': "p' = p\<lparr>files := files p @ [ParserDataContractFile r path text
             (YamlObject (CommentedMap m) (ParserLocation path 0 0))]\<rparr>"
    by blast
  let ?f = "ParserDataContractFile r path text (YamlObject (CommentedMap m) (ParserLocation path 0 0))"
  let ?w1 = "logs_debug lg (''Parsing file '' @ quoted path) w"
  from assms(1) r m have run: "run_plugins (plugins p) ?f p' ?w1 = (Inr (), w')"
    by (simp add: parse_def Let_def parse_yaml_str_loaded p' split: prod.splits sum.splits)
  from run_plugins_calls [OF run] have
    "plugin_calls w' = plugin_calls ?w1 @ map (\<lambda>pl. PluginCall (plugin_name pl) ?f (files p')) (plugins p)"
    by simp
  then have "plugin_calls w' =
      plugin_calls w @ map (\<lambda>pl. PluginCall (plugin_name pl) ?f (files p @ [?f])) (plugins p)"
    by (simp add: p' logs_debug_def logs_append_def)
  moreover have "files p' = files p @ [?f]" by (simp add: p')
  ultimately show ?thesis by blast
qed

text \<open>
  The theorem with the plugins \<^verbatim>\<open>first\<close> and \<^verbatim>\<open>second\<close>.
\<close>

theorem plugins_run_once_in_order_witness:
  "plugin_calls (snd (snd (parse yaml_fixture bound_parser ''datasource: db1'' ''c.yml'' 0 empty_world)))
     = [PluginCall ''first'' (contract_file_fixture ''c.yml'' ''db1'')
          [contract_file_fixture ''c.yml'' ''db1''],
        PluginCall ''second'' (contract_file_fixture ''c.yml'' ''db1'')
          [contract_file_fixture ''c.yml'' ''db1'']]"
  using plugins_run_once_in_order [of yaml_fixture bound_parser "''datasource: db1''" "''c.yml''"
      0 empty_world None
      "fst (snd (parse yaml_fixture bound_parser ''datasource: db1'' ''c.yml'' 0 empty_world))"
      "snd (snd (parse yaml_fixture bound_parser ''datasource: db1'' ''c.yml'' 0 empty_world))"]
  by (simp add: parse_def parse_yaml_str_def yaml_fixture_def bound_parser_def
        resolver_fixture_def Let_def empty_world_def logs_debug_def logs_append_def
        contract_file_fixture_def)

section \<open>Semantic validation\<close>

text \<open>
  Claim C5, as amended. On a parser whose \<^verbatim>\<open>logs\<close> attribute is bound to a sink,
  \<open>validate_semantics\<close> returns normally and appends to that sink, for every name that
  the datasource files of the registry declare more than once (names in the order of
  their first declaration), one error per declaration site, in declaration order, located
  at that site, with the message citing the name and the number of its declarations; the
  errors for undefined references follow. Datasource files whose name is absent or not a
  plain string are no declarations and get no entry.
\<close>

theorem duplicate_declarations_reported:
  assumes "logs p = Some r"
  shows "validate_semantics p w =
    (Inr (),
     emit r
       (concat (map (\<lambda>n. map (\<lambda>l. ParserLog Error
                                     (duplicate_message n (length (declaration_sites n (files p))))
                                     (Some l) None)
                             (declaration_sites n (files p)))
                    (filter (\<lambda>n. 1 < length (declaration_sites n (files p)))
                       (declared_names (files p))))
        @ undefined_reference_errors (files p))
       w)"
  using validate_semantics_bound [OF assms, of w] by (simp add: duplicate_errors_def)

text \<open>
  The theorem on a registry with two declarations of \<^verbatim>\<open>db1\<close>, a datasource file
  without a name and one whose name is a number: exactly two duplicate errors, each citing
  the count 2.
\<close>

theorem duplicate_declarations_reported_witness:
  "sinks (snd (validate_semantics (bound_parser\<lparr>files := registry_fixture\<rparr>) empty_world)) 0 =
     [ParserLog Error (duplicate_message ''db1'' 2) (Some (ParserLocation ''ds1.yml'' 0 6)) None,
      ParserLog Error (duplicate_message ''db1'' 2) (Some (ParserLocation ''ds2.yml'' 0 6)) None,
      ParserLog Error (undefined_message ''db2'') (Some (ParserLocation ''c2.yml'' 0 12)) None]
   \<and> duplicate_message ''db1'' 2
       = ''Datasource '' @ [CHR 0x27] @ ''db1'' @ [CHR 0x27] @ '' was declared 2 times''"
  using duplicate_declarations_reported [of "bound_parser\<lparr>files := registry_fixture\<rparr>" 0 empty_world]
  by (simp add: bound_parser_def registry_fixture_def datasource_file_fixture_def
        contract_file_fixture_def empty_world_def emit_def declaration_sites_def declared_names_def
        datasource_declarations_def List.map_filter_simps undefined_reference_errors_def
        duplicate_message_def quoted_def str_nat.simps)

text \<open>
  Claim C5 as stated fails: \<open>parse\<close> registers every mapping as a data-contract file,
  so after two datasource texts declaring \<^verbatim>\<open>db1\<close> were given to \<open>parse\<close> (on a parser
  whose \<^verbatim>\<open>logs\<close> attribute is the caller's sink), \<open>validate_semantics\<close> appends
  nothing: the sink holds the two debug lines of the two \<open>parse\<close> calls only. On a
  freshly constructed parser the first \<open>parse\<close> already raises.
\<close>

theorem parsed_datasource_files_counterexample:
  "fst (parse yaml_fixture (ContractParser_init id) ''name: db1'' ''ds1.yml'' 0 empty_world)
     = Inl AttributeError
   \<and> fst (parse yaml_fixture bound_parser ''name: db1'' ''ds1.yml'' 0 empty_world) = Inr None
   \<and> fst (parse yaml_fixture
            (fst (snd (parse yaml_fixture bound_parser ''name: db1'' ''ds1.yml'' 0 empty_world)))
            ''name: db1'' ''ds2.yml'' 0
            (snd (snd (parse yaml_fixture bound_parser ''name: db1'' ''ds1.yml'' 0 empty_world))))
       = Inr None
   \<and> sinks (snd (validate_semantics
        (fst (snd (parse yaml_fixture
            (fst (snd (parse yaml_fixture bound_parser ''name: db1'' ''ds1.yml'' 0 empty_world)))
            ''name: db1'' ''ds2.yml'' 0
            (snd (snd (parse yaml_fixture bound_parser ''name: db1'' ''ds1.yml'' 0 empty_world))))))
        (snd (snd (parse yaml_fixture
            (fst (snd (parse yaml_fixture bound_parser ''name: db1'' ''ds1.yml'' 0 empty_world)))
            ''name: db1'' ''ds2.yml'' 0
            (snd (snd (parse yaml_fixture bound_parser ''name: db1'' ''ds1.yml'' 0 empty_world)))))))) 0
       = [ParserLog Debug (''Parsing file '' @ quoted ''ds1.yml'') None None,
          ParserLog Debug (''Parsing file '' @ quoted ''ds2.yml'') None None]"
  by (simp add: parse_def parse_yaml_str_def yaml_fixture_def bound_parser_def
        resolver_fixture_def Let_def empty_world_def logs_debug_def logs_append_def
        validate_semantics_def validate_datasource_names_def duplicate_declared_datasources_def
        ContractParser_init_def)

text \<open>
  What the reference check does once the \<^verbatim>\<open>logs\<close> attribute is bound to a sink:
  \<open>validate_semantics\<close> appends, after the duplicate errors and in registry order, for
  every data-contract file whose \<^verbatim>\<open>datasource\<close> is a plain string, nothing when the
  name is among the declared datasource names, and exactly one error at the reference's
  location, naming the datasource, when it is not. Other files contribute nothing.
\<close>

lemma undefined_references_when_bound:
  assumes "logs p = Some r"
  shows "validate_semantics p w =
    (Inr (),
     emit r
       (duplicate_errors (files p)
        @ concat (map (\<lambda>f. case datasource_reference f of
                              None \<Rightarrow> []
                            | Some (v, l) \<Rightarrow>
                                if v \<in> fst ` set (datasource_declarations (files p)) then []
                                else [ParserLog Error (undefined_message v) (Some l) None])
                      (files p)))
       w)"
  using validate_semantics_bound [OF assms, of w] by (simp add: undefined_reference_errors_def)

text \<open>
  The same check on the parser that \<^verbatim>\<open>__init__\<close> builds: as soon as one reference is
  undefined, the call raises \<^verbatim>\<open>AttributeError\<close> at \<^verbatim>\<open>self.logs.error\<close> and no sink
  changes.
\<close>

lemma undefined_reference_unbound:
  assumes "logs p = None" and "undefined_reference_errors (files p) \<noteq> []"
  shows "validate_semantics p w = (Inl AttributeError, w)"
  using assms by (simp add: validate_semantics_unbound)


text \<open>
  Claim C7. Two calls of \<open>validate_semantics\<close> in a row, with nothing in between, end
  the same way, and the second appends to every sink exactly the entries that the first
  appended: each call rebuilds \<^verbatim>\<open>datasource_locations\<close> and computes its diagnostics
  from the registry alone. This holds whether or not the \<^verbatim>\<open>logs\<close> attribute is bound.
  (The sink is append-only, so after the two calls it holds these entries twice.)
\<close>

theorem validate_semantics_idempotent:
  assumes "validate_semantics p w = (out1, w1)" and "validate_semantics p w1 = (out2, w2)"
  shows "out2 = out1
         \<and> (\<forall>r. sinks w1 r = sinks w r @ drop (length (sinks w r)) (sinks w1 r)
                \<and> sinks w2 r = sinks w1 r @ drop (length (sinks w r)) (sinks w1 r))"
proof (cases "logs p")
  case None
  from assms show ?thesis
    by (auto simp: validate_semantics_unbound [OF None] split: if_splits)
next
  case (Some r)
  from assms show ?thesis
    by (auto simp: validate_semantics_bound [OF Some] emit_def)
qed

text \<open>
  The theorem on the registry with a duplicate and an undefined reference: the sink
  holds the same three errors twice.
\<close>

theorem validate_semantics_idempotent_witness:
  "sinks (snd (validate_semantics (bound_parser\<lparr>files := registry_fixture\<rparr>)
       (snd (validate_semantics (bound_parser\<lparr>files := registry_fixture\<rparr>) empty_world)))) 0 =
     [ParserLog Error (duplicate_message ''db1'' 2) (Some (ParserLocation ''ds1.yml'' 0 6)) None,
      ParserLog Error (duplicate_message ''db1'' 2) (Some (ParserLocation ''ds2.yml'' 0 6)) None,
      ParserLog Error (undefined_message ''db2'') (Some (ParserLocation ''c2.yml'' 0 12)) None,
      ParserLog Error (duplicate_message ''db1'' 2) (Some (ParserLocation ''ds1.yml'' 0 6)) None,
      ParserLog Error (duplicate_message ''db1'' 2) (Some (ParserLocation ''ds2.yml'' 0 6)) None,
      ParserLog Error (undefined_message ''db2'') (Some (ParserLocation ''c2.yml'' 0 12)) None]"
proof -
  let ?p = "bound_parser\<lparr>files := registry_fixture\<rparr>"
  let ?es = "[ParserLog Error (duplicate_message ''db1'' 2) (Some (ParserLocation ''ds1.yml'' 0 6)) None,
      ParserLog Error (duplicate_message ''db1'' 2) (Some (ParserLocation ''ds2.yml'' 0 6)) None,
      ParserLog Error (undefined_message ''db2'') (Some (ParserLocation ''c2.yml'' 0 12)) None]"
  have bound: "logs ?p = Some 0"
    by (simp add: bound_parser_def)
  have es: "duplicate_errors (files ?p) @ undefined_reference_errors (files ?p) = ?es"
    by (simp add: registry_fixture_def datasource_file_fixture_def contract_file_fixture_def
          declaration_sites_def declared_names_def datasource_declarations_def
          List.map_filter_simps undefined_reference_errors_def duplicate_errors_def
          numeral_2_eq_2)
  have first: "validate_semantics ?p empty_world = (Inr (), emit 0 ?es empty_world)"
    using validate_semantics_bound [OF bound, of empty_world] es by simp
  have second: "validate_semantics ?p (emit 0 ?es empty_world)
      = (Inr (), emit 0 ?es (emit 0 ?es empty_world))"
    using validate_semantics_bound [OF bound, of "emit 0 ?es empty_world"] es by simp
  from validate_semantics_idempotent [OF first second]
  have "sinks (emit 0 ?es (emit 0 ?es empty_world)) 0
      = sinks (emit 0 ?es empty_world) 0
          @ drop (length (sinks empty_world 0)) (sinks (emit 0 ?es empty_world) 0)"
    by blast
  then show ?thesis
    unfolding first snd_conv second
    by (simp add: emit_def empty_world_def)
qed

end
